theory Spec2Isabelle
  imports Main
begin

section \<open>JavaScript values\<close>

text \<open>
  The raw values a caller hands to the select (\<open>props.value\<close>), the keys a key extractor
  returns and the scalar fields of an option record are untyped JavaScript values.  The
  model keeps the shapes the code distinguishes: \<open>undefined\<close>, \<open>null\<close>, the
  primitives, arrays, and other objects.  Numbers are the integers and \<open>NaN\<close> (no
  fractions, no infinities).  An object other than an array is opaque: \<open>Obj r\<close> is the
  object at reference \<open>r\<close>, with a constructor that is not \<open>Array\<close>, and
  \<open>ObjNoConstructor r\<close> is an object without a constructor, such as
  \<open>Object.create(null)\<close> makes.
\<close>

datatype jsval =
    Undefined
  | Null
  | Bool bool
  | Num int
  | NaN
  | Str string
  | Obj nat
  | ObjNoConstructor nat
  | Arr "jsval list"

text \<open>The exception the code can throw.\<close>

datatype error = TypeError

text \<open>Truthiness, as \<open>||\<close> and \<open>? :\<close> test it.\<close>

fun truthy :: "jsval \<Rightarrow> bool" where
  "truthy Undefined = False"
| "truthy Null = False"
| "truthy (Bool b) = b"
| "truthy (Num n) = (n \<noteq> 0)"
| "truthy NaN = False"
| "truthy (Str s) = (s \<noteq> [])"
| "truthy (Obj r) = True"
| "truthy (ObjNoConstructor r) = True"
| "truthy (Arr xs) = True"

text \<open>\<open>a || b\<close>: the left operand when it is truthy, the right one otherwise.\<close>

definition js_or :: "jsval \<Rightarrow> jsval \<Rightarrow> jsval" where
  "js_or a b = (if truthy a then a else b)"

text \<open>
  \<open>a === b\<close>.  \<open>NaN\<close> equals nothing, itself included.  Other primitives compare by
  value and opaque objects by reference.  An array compares by reference too; the
  resolver only ever compares an extracted key with a raw value that is not an array, so
  an array on either side is a different object.
\<close>

fun strict_eq :: "jsval \<Rightarrow> jsval \<Rightarrow> bool" where
  "strict_eq NaN b = False"
| "strict_eq a NaN = False"
| "strict_eq (Arr xs) b = False"
| "strict_eq a (Arr ys) = False"
| "strict_eq a b = (a = b)"

section \<open>Option records\<close>

text \<open>
  An option object as react-select reads it, and as \<open>cosmosToReactSelect.options\<close>
  builds it: \<open>{ isDisabled, label, options, ...otherProperties }\<close>.  The fields are
  \<open>isDisabled\<close>, \<open>label\<close>, \<open>options\<close> (\<open>None\<close> when the field is absent, \<open>undefined\<close> or
  \<open>null\<close>), \<open>value\<close>, and the remaining fields by name.
\<close>

datatype react_option =
  ReactOption
    (isDisabled: jsval)
    (opt_label: jsval)
    (opt_options: "react_option list option")
    (opt_value: jsval)
    (opt_other: "(string \<times> jsval) list")

text \<open>
  Modelled from the spec: the interface \<open>ISelectOptions\<close> (file \<open>./interfaces\<close>) is not
  part of the sources at hand.  The data model of the specification gives a caller option
  the fields \<open>value\<close>, \<open>label\<close> or \<open>text\<close>, \<open>groupName\<close>, \<open>items\<close> and \<open>disabled\<close>, each
  optional, plus widget-specific extra fields that pass through.  An absent scalar field
  reads \<open>Undefined\<close>; absent \<open>items\<close> is \<open>None\<close>.

  Two extra fields carry the names of fields the normaliser computes, and are kept
  apart: a caller field \<open>options\<close> and a caller field \<open>isDisabled\<close>.  A field \<open>options\<close>
  holds what the widget's field of that name holds: an array of option objects
  (\<open>OptionsFieldArray\<close>), or \<open>undefined\<close> or \<open>null\<close> (\<open>OptionsFieldEmpty\<close>);
  \<open>OptionsFieldAbsent\<close> is a caller option without the field.  The other extra fields
  are an association list, under names the normaliser neither reads nor writes.
\<close>

datatype options_field =
    OptionsFieldAbsent
  | OptionsFieldEmpty
  | OptionsFieldArray "react_option list"

datatype cosmos_option =
  CosmosOption
    (items: "cosmos_option list option")
    (groupName: jsval)
    (disabled: jsval)
    (label: jsval)
    (item_text: jsval)
    (item_value: jsval)
    (extra_options: options_field)
    (extra_isDisabled: "jsval option")
    (otherProperties: "(string \<times> jsval) list")

section \<open>cosmosToReactSelect.options\<close>

text \<open>
  \<open>cosmosOptions.map(({ items, groupName, disabled, label, text, ...otherProperties }) => ...)\<close>.
  The callback of the map is \<open>normalize_option\<close>; the recursive call on \<open>items\<close> is the
  map over the children.  The object literal spreads \<open>...otherProperties\<close> last, so a
  caller field \<open>isDisabled\<close> or \<open>options\<close> replaces the computed field of that name.
\<close>

fun normalize_option :: "cosmos_option \<Rightarrow> react_option" where
  "normalize_option (CosmosOption its g d l t v xo xd oth) =
     ReactOption
       (case xd of None \<Rightarrow> d | Some x \<Rightarrow> x)
       (js_or (js_or g l) t)
       (case xo of
          OptionsFieldAbsent \<Rightarrow>
            (case its of None \<Rightarrow> None | Some xs \<Rightarrow> Some (map normalize_option xs))
        | OptionsFieldEmpty \<Rightarrow> None
        | OptionsFieldArray os \<Rightarrow> Some os)
       v oth"

definition cosmosToReactSelect_options :: "cosmos_option list \<Rightarrow> react_option list" where
  "cosmosToReactSelect_options cosmosOptions = map normalize_option cosmosOptions"

section \<open>cosmosToReactSelect.value\<close>

text \<open>
  What the resolver returns: \<open>null\<close>, \<open>undefined\<close> (the result of \<open>options.find\<close> when
  nothing matches), one option record, or an array of results.  It throws where it reads
  \<open>valueProp.constructor.name\<close> of an object without a constructor.
\<close>

datatype resolved =
    RNull
  | RUndefined
  | ROne react_option
  | RMany "resolved list"

definition defaultGetOptionValue :: "react_option \<Rightarrow> jsval" where
  "defaultGetOptionValue option = opt_value option"

text \<open>\<open>const matchValue = (option) => getOptionValue(option) === valueProp\<close>\<close>

definition matchValue :: "(react_option \<Rightarrow> jsval) \<Rightarrow> jsval \<Rightarrow> react_option \<Rightarrow> bool" where
  "matchValue getOptionValue valueProp option = strict_eq (getOptionValue option) valueProp"

text \<open>
  The two nested \<open>forEach\<close> loops, threading the variable \<open>valueFound\<close> (\<open>None\<close> is its
  initial \<open>null\<close>).  The inner loop assigns at every matching sub-option and has no exit.
\<close>

fun forEach_subOption ::
  "(react_option \<Rightarrow> bool) \<Rightarrow> react_option list \<Rightarrow> react_option option \<Rightarrow> react_option option" where
  "forEach_subOption m [] valueFound = valueFound"
| "forEach_subOption m (subOption # rest) valueFound =
     forEach_subOption m rest (if m subOption then Some subOption else valueFound)"

fun forEach_option ::
  "(react_option \<Rightarrow> bool) \<Rightarrow> react_option list \<Rightarrow> react_option option \<Rightarrow> react_option option" where
  "forEach_option m [] valueFound = valueFound"
| "forEach_option m (option # rest) valueFound =
     forEach_option m rest
       (case opt_options option of
          Some subOptions \<Rightarrow> forEach_subOption m subOptions valueFound
        | None \<Rightarrow> valueFound)"

text \<open>The part of the function after the array test: both passes over \<open>options\<close>.\<close>

definition resolve_scalar ::
  "jsval \<Rightarrow> react_option list \<Rightarrow> (react_option \<Rightarrow> jsval) \<Rightarrow> resolved" where
  "resolve_scalar valueProp options getOptionValue =
     (case forEach_option (matchValue getOptionValue valueProp) options None of
        Some valueFound \<Rightarrow> ROne valueFound
      | None \<Rightarrow>
          (case find (matchValue getOptionValue valueProp) options of
             Some option \<Rightarrow> ROne option
           | None \<Rightarrow> RUndefined))"

text \<open>
  \<open>valueProp.map(...)\<close> with a callback that can throw: the results in order, or the
  exception of the first element that throws.
\<close>

fun collect_results :: "(error + 'a) list \<Rightarrow> error + 'a list" where
  "collect_results [] = Inr []"
| "collect_results (x # xs) =
     (case x of
        Inl e \<Rightarrow> Inl e
      | Inr r \<Rightarrow> (case collect_results xs of Inl e \<Rightarrow> Inl e | Inr rs \<Rightarrow> Inr (r # rs)))"

fun cosmosToReactSelect_value ::
  "jsval \<Rightarrow> react_option list \<Rightarrow> (react_option \<Rightarrow> jsval) \<Rightarrow> error + resolved" where
  "cosmosToReactSelect_value Null options getOptionValue = Inr RNull"
| "cosmosToReactSelect_value Undefined options getOptionValue = Inr RNull"
| "cosmosToReactSelect_value (ObjNoConstructor r) options getOptionValue = Inl TypeError"
| "cosmosToReactSelect_value (Arr valueProp) options getOptionValue =
     (case collect_results
             (map (\<lambda>item. cosmosToReactSelect_value item options getOptionValue) valueProp) of
        Inl e \<Rightarrow> Inl e
      | Inr rs \<Rightarrow> Inr (RMany rs))"
| "cosmosToReactSelect_value valueProp options getOptionValue =
     Inr (resolve_scalar valueProp options getOptionValue)"

text \<open>The default parameter \<open>getOptionValue = defaultGetOptionValue\<close>.\<close>

definition or_default :: "(react_option \<Rightarrow> jsval) option \<Rightarrow> react_option \<Rightarrow> jsval" where
  "or_default getOptionValue =
     (case getOptionValue of None \<Rightarrow> defaultGetOptionValue | Some f \<Rightarrow> f)"

section \<open>oneOrMore\<close>

text \<open>
  What react-select hands to its \<open>onChange\<close> callback: \<open>null\<close>, one option record, or an
  array of option records.
\<close>

datatype selection =
    SelNull
  | SelOne react_option
  | SelMany "react_option list"

fun oneOrMore :: "selection \<Rightarrow> (react_option \<Rightarrow> jsval) \<Rightarrow> jsval" where
  "oneOrMore SelNull getOptionValue = Null"
| "oneOrMore (SelMany options) getOptionValue = Arr (map getOptionValue options)"
| "oneOrMore (SelOne options) getOptionValue = getOptionValue options"

section \<open>The Select component\<close>

text \<open>
  \<open>ISelectProps\<close>, without the fields that only style the widget (\<open>id\<close>, \<open>hasError\<close>,
  \<open>placeholder\<close>, \<open>noOptionsMessage\<close>, \<open>style\<close>, \<open>autoFocus\<close>, \<open>inputValue\<close>).  A boolean
  flag that is left out reads \<open>False\<close>; a callback is its presence, except the key
  extractor, which the resolver calls, and the loader, which maps a query text to the
  options it delivers.  \<open>defaultOptions\<close> is \<open>Object[] | boolean\<close>.
\<close>

datatype default_options =
    DefaultOptionsAbsent
  | DefaultOptionsFlag bool
  | DefaultOptionsList "cosmos_option list"

record ISelectProps =
  props_name :: jsval
  props_options :: "cosmos_option list"
  props_value :: jsval
  props_defaultValue :: jsval
  props_onChange :: bool
  props_async :: bool
  props_disabled :: bool
  props_searchable :: bool
  props_multiple :: bool
  props_loading :: bool
  props_customOptionRenderer :: bool
  props_customValueRenderer :: bool
  props_loadOptions :: "(string \<Rightarrow> cosmos_option list) option"
  props_getOptionValue :: "(react_option \<Rightarrow> jsval) option"
  props_defaultOptions :: default_options
  props_cacheOptions :: bool
  props_defaultMenuOpen :: bool

record ISelectState =
  menuIsOpen :: bool

text \<open>
  The value handed to the widget: the caller's raw value, untouched, in async mode, and
  the resolver's result otherwise.
\<close>

datatype widget_value =
    PassedThrough jsval
  | Resolved resolved

text \<open>
  The attributes of the \<open>SelectProvider\<close> element, as the JSX lists them (without
  \<open>components\<close>, \<open>theme\<close>, \<open>styles\<close>, \<open>placeholder\<close>, \<open>noOptionsMessage\<close>, \<open>autoFocus\<close>,
  \<open>menuPortalTarget\<close>, \<open>key\<close> and \<open>id\<close>; the three handlers are the functions \<open>onChange\<close>
  and \<open>updateMenuState\<close> below).
\<close>

record SelectProvider_props =
  sp_isClearable :: bool
  sp_isDisabled :: bool
  sp_isMulti :: bool
  sp_isSearchable :: bool
  sp_isLoading :: bool
  sp_menuIsOpen :: bool
  sp_defaultValue :: jsval
  sp_getOptionValue :: "(react_option \<Rightarrow> jsval) option"
  sp_options :: "react_option list"
  sp_loadOptions :: "(string \<Rightarrow> cosmos_option list) option"
  sp_defaultOptions :: "react_option list option"
  sp_name :: jsval
  sp_value :: widget_value

datatype provider = AsyncSelect | ReactSelect

datatype element =
    SimpleSelect ISelectProps
  | SelectProvider provider SelectProvider_props

text \<open>
  \<open>props.defaultOptions ? cosmosToReactSelect.options(props.defaultOptions) : null\<close>.
  For the boolean \<open>true\<close> the call reaches \<open>cosmosOptions.map\<close> on a boolean, which throws.
\<close>

fun render_defaultOptions :: "default_options \<Rightarrow> error + react_option list option" where
  "render_defaultOptions DefaultOptionsAbsent = Inr None"
| "render_defaultOptions (DefaultOptionsFlag b) = (if b then Inl TypeError else Inr None)"
| "render_defaultOptions (DefaultOptionsList xs) = Inr (Some (cosmosToReactSelect_options xs))"

text \<open>The test that selects the plain widget.\<close>

definition simple_path :: "ISelectProps \<Rightarrow> bool" where
  "simple_path props =
     (\<not> (props_async props \<or> props_searchable props \<or> props_multiple props \<or>
         props_customOptionRenderer props \<or> props_customValueRenderer props \<or>
         props_getOptionValue props \<noteq> None))"

definition render :: "ISelectProps \<Rightarrow> error + element" where
  "render props =
     (if simple_path props then Inr (SimpleSelect props)
      else
        let options = cosmosToReactSelect_options (props_options props) in
        case render_defaultOptions (props_defaultOptions props) of
          Inl e \<Rightarrow> Inl e
        | Inr defaultOptions \<Rightarrow>
            case (if props_async props then Inr (PassedThrough (props_value props))
                  else case cosmosToReactSelect_value (props_value props) options
                              (or_default (props_getOptionValue props)) of
                         Inl e \<Rightarrow> Inl e
                       | Inr r \<Rightarrow> Inr (Resolved r)) of
              Inl e \<Rightarrow> Inl e
            | Inr value \<Rightarrow>
            let searchable = (props_async props \<or> props_searchable props);
                SelectProvider_kind = (if props_async props then AsyncSelect else ReactSelect)
            in Inr (SelectProvider SelectProvider_kind
                 \<lparr> sp_isClearable = True,
                   sp_isDisabled = props_disabled props,
                   sp_isMulti = props_multiple props,
                   sp_isSearchable = searchable,
                   sp_isLoading = props_loading props,
                   sp_menuIsOpen = props_defaultMenuOpen props,
                   sp_defaultValue = props_defaultValue props,
                   sp_getOptionValue = props_getOptionValue props,
                   sp_options = options,
                   sp_loadOptions = props_loadOptions props,
                   sp_defaultOptions = defaultOptions,
                   sp_name = props_name props,
                   sp_value = value \<rparr>))"

text \<open>
  The handler \<open>onChange\<close> that \<open>render\<close> gives to the widget.  The new value is either the
  widget's own records (async mode) or the keys \<open>oneOrMore\<close> extracts.  The result is the
  argument of the call \<open>props.onChange({ target: { name, value } })\<close>, and \<open>None\<close> when the
  caller supplied no \<open>onChange\<close> and nothing is called.
\<close>

datatype new_value =
    Records selection
  | Keys jsval

record change_event =
  target_name :: jsval
  target_value :: new_value

definition onChange :: "ISelectProps \<Rightarrow> selection \<Rightarrow> change_event option" where
  "onChange props options =
     (let newValue =
            (if props_async props then Records options
             else Keys (oneOrMore options (or_default (props_getOptionValue props))))
      in if props_onChange props
         then Some \<lparr> target_name = props_name props, target_value = newValue \<rparr>
         else None)"

section \<open>Menu state and the scroll listener\<close>

text \<open>The constructor: \<open>this.state = { menuIsOpen: props.defaultMenuOpen || false }\<close>.\<close>

definition initial_state :: "ISelectProps \<Rightarrow> ISelectState" where
  "initial_state props = \<lparr> menuIsOpen = (props_defaultMenuOpen props \<or> False) \<rparr>"

text \<open>
  \<open>handleScroll\<close> returns the state, which it does not change, and the number of
  \<open>forceUpdate\<close> calls it made.
\<close>

definition handleScroll :: "ISelectState \<Rightarrow> ISelectState \<times> nat" where
  "handleScroll state = (if menuIsOpen state then (state, 1) else (state, 0))"

text \<open>\<open>updateMenuState(newState)\<close> is the handler \<open>() => this.setState({ menuIsOpen: newState })\<close>.\<close>

definition updateMenuState :: "bool \<Rightarrow> ISelectState \<Rightarrow> ISelectState" where
  "updateMenuState newState state = state\<lparr> menuIsOpen := newState \<rparr>"

text \<open>
  The events a mounted component receives: the widget's \<open>onMenuOpen\<close> and \<open>onMenuClose\<close>,
  wired to \<open>updateMenuState(true)\<close> and \<open>updateMenuState(false)\<close>, and the document's scroll
  event, wired to \<open>handleScroll\<close>.
\<close>

datatype event = MenuOpen | MenuClose | Scroll

fun dispatch :: "ISelectState \<Rightarrow> event \<Rightarrow> ISelectState \<times> nat" where
  "dispatch state MenuOpen = (updateMenuState True state, 0)"
| "dispatch state MenuClose = (updateMenuState False state, 0)"
| "dispatch state Scroll = handleScroll state"

text \<open>A sequence of events, with the \<open>forceUpdate\<close> calls counted.\<close>

fun run :: "ISelectState \<Rightarrow> event list \<Rightarrow> ISelectState \<times> nat" where
  "run state [] = (state, 0)"
| "run state (e # es) =
     (let (state', n) = dispatch state e;
          (state'', m) = run state' es
      in (state'', n + m))"

section \<open>Vocabulary of the properties\<close>

text \<open>
  A raw value that reaches the two passes over the options: neither \<open>null\<close> nor
  \<open>undefined\<close> nor an array nor an object without a constructor.
\<close>

fun is_scalar :: "jsval \<Rightarrow> bool" where
  "is_scalar Undefined = False"
| "is_scalar Null = False"
| "is_scalar (Arr xs) = False"
| "is_scalar (ObjNoConstructor r) = False"
| "is_scalar v = True"

text \<open>A raw value that holds no object without a constructor, at any depth of arrays.\<close>

fun has_constructor :: "jsval \<Rightarrow> bool" where
  "has_constructor (ObjNoConstructor r) = False"
| "has_constructor (Arr vs) = list_all has_constructor vs"
| "has_constructor v = True"

text \<open>
  The nested leaves in search order: the groups in order of appearance, and the
  sub-options of each group in their order.
\<close>

definition sub_options :: "react_option \<Rightarrow> react_option list" where
  "sub_options option =
     (case opt_options option of Some subOptions \<Rightarrow> subOptions | None \<Rightarrow> [])"

definition nested_options :: "react_option list \<Rightarrow> react_option list" where
  "nested_options options = concat (map sub_options options)"

text \<open>All the options below an option, at any depth.\<close>

fun descendants :: "react_option \<Rightarrow> react_option list" where
  "descendants (ReactOption d l opts v oth) =
     (case opts of None \<Rightarrow> [] | Some xs \<Rightarrow> xs @ concat (map descendants xs))"

text \<open>The last element of a list that satisfies a test.\<close>

definition last_match :: "('a \<Rightarrow> bool) \<Rightarrow> 'a list \<Rightarrow> 'a option" where
  "last_match m xs = find m (rev xs)"

text \<open>
  The structure of an option tree, caller-side or canonical: every node with its
  \<open>value\<close> field and, for a group, the structures of its children in order.
\<close>

datatype tree_shape = Node jsval "tree_shape list option"

fun shape_of_cosmos :: "cosmos_option \<Rightarrow> tree_shape" where
  "shape_of_cosmos (CosmosOption its g d l t v xo xd oth) =
     Node v (case its of None \<Rightarrow> None | Some xs \<Rightarrow> Some (map shape_of_cosmos xs))"

fun shape_of_react :: "react_option \<Rightarrow> tree_shape" where
  "shape_of_react (ReactOption d l opts v oth) =
     Node v (case opts of None \<Rightarrow> None | Some xs \<Rightarrow> Some (map shape_of_react xs))"

text \<open>No option of a caller tree has a field of its own named \<open>options\<close>.\<close>

fun no_options_field :: "cosmos_option \<Rightarrow> bool" where
  "no_options_field (CosmosOption its g d l t v xo xd oth) =
     (xo = OptionsFieldAbsent \<and>
      (case its of None \<Rightarrow> True | Some xs \<Rightarrow> list_all no_options_field xs))"

fun leaf_count :: "tree_shape \<Rightarrow> nat" where
  "leaf_count (Node v kids) =
     (case kids of None \<Rightarrow> 1 | Some xs \<Rightarrow> sum_list (map leaf_count xs))"

fun depth :: "tree_shape \<Rightarrow> nat" where
  "depth (Node v kids) =
     (case kids of None \<Rightarrow> 1 | Some xs \<Rightarrow> 1 + foldr max (map depth xs) 0)"

fun leaf_values :: "tree_shape \<Rightarrow> jsval list" where
  "leaf_values (Node v kids) =
     (case kids of None \<Rightarrow> [v] | Some xs \<Rightarrow> concat (map leaf_values xs))"

text \<open>
  Multiplicity of a resolved value, and the shape of a raw value.  \<open>Single\<close> is one slot:
  a record, or \<open>undefined\<close> when nothing matched.
\<close>

datatype multiplicity = NoSelection | Single | Sequence

fun multiplicity_of :: "resolved \<Rightarrow> multiplicity" where
  "multiplicity_of RNull = NoSelection"
| "multiplicity_of RUndefined = Single"
| "multiplicity_of (ROne option) = Single"
| "multiplicity_of (RMany rs) = Sequence"

fun raw_shape :: "jsval \<Rightarrow> multiplicity" where
  "raw_shape Null = NoSelection"
| "raw_shape Undefined = NoSelection"
| "raw_shape (Arr vs) = Sequence"
| "raw_shape v = Single"

text \<open>The \<open>value\<close> attribute of the rendered widget, when the full widget is rendered.\<close>

fun rendered_value :: "error + element \<Rightarrow> widget_value option" where
  "rendered_value (Inr (SelectProvider kind w)) = Some (sp_value w)"
| "rendered_value other = None"

text \<open>
  The specification of the scroll listener, in its own words: the number of scroll
  events that arrive while the menu is open, the menu being open from an open signal to
  the next close signal.
\<close>

fun open_scrolls :: "bool \<Rightarrow> event list \<Rightarrow> nat" where
  "open_scrolls isOpen [] = 0"
| "open_scrolls isOpen (MenuOpen # es) = open_scrolls True es"
| "open_scrolls isOpen (MenuClose # es) = open_scrolls False es"
| "open_scrolls isOpen (Scroll # es) = (if isOpen then 1 else 0) + open_scrolls isOpen es"

section \<open>Example inputs\<close>

text \<open>
  The option tree \<open>[{value:"a",label:"A"},{groupName:"G",items:[{value:"b",label:"B"}]}]\<close>
  and its canonical form.
\<close>

definition scenario_options :: "cosmos_option list" where
  "scenario_options =
     [CosmosOption None Undefined Undefined (Str ''A'') Undefined (Str ''a'')
        OptionsFieldAbsent None [],
      CosmosOption
        (Some [CosmosOption None Undefined Undefined (Str ''B'') Undefined (Str ''b'')
                 OptionsFieldAbsent None []])
        (Str ''G'') Undefined Undefined Undefined Undefined OptionsFieldAbsent None []]"

text \<open>
  A group \<open>{ groupName: "G", items: [{ value: "b", label: "B" }], options: [] }\<close> and a
  leaf \<open>{ label: "A", value: "a", options: [{ value: "b", label: "B" }] }\<close>: caller
  options with a field of their own named \<open>options\<close>.
\<close>

definition overridden_group :: cosmos_option where
  "overridden_group =
     CosmosOption
       (Some [CosmosOption None Undefined Undefined (Str ''B'') Undefined (Str ''b'')
                OptionsFieldAbsent None []])
       (Str ''G'') Undefined Undefined Undefined Undefined (OptionsFieldArray []) None []"

definition overridden_leaf :: cosmos_option where
  "overridden_leaf =
     CosmosOption None Undefined Undefined (Str ''A'') Undefined (Str ''a'')
       (OptionsFieldArray [ReactOption Undefined (Str ''B'') None (Str ''b'') []]) None []"

definition leaf_a :: react_option where
  "leaf_a = ReactOption Undefined (Str ''A'') None (Str ''a'') []"

definition leaf_b :: react_option where
  "leaf_b = ReactOption Undefined (Str ''B'') None (Str ''b'') []"

definition group_G :: react_option where
  "group_G = ReactOption Undefined (Str ''G'') (Some [leaf_b]) Undefined []"

text \<open>Two groups whose leaves share the key \<open>"b"\<close>.\<close>

definition leaf_b1 :: react_option where
  "leaf_b1 = ReactOption Undefined (Str ''B1'') None (Str ''b'') []"

definition leaf_b2 :: react_option where
  "leaf_b2 = ReactOption Undefined (Str ''B2'') None (Str ''b'') []"

definition duplicate_groups :: "react_option list" where
  "duplicate_groups =
     [ReactOption Undefined (Str ''G1'') (Some [leaf_b1]) Undefined [],
      ReactOption Undefined (Str ''G2'') (Some [leaf_b2]) Undefined []]"

text \<open>A top-level leaf with the key of a nested one.\<close>

definition leaf_b_top :: react_option where
  "leaf_b_top = ReactOption Undefined (Str ''top'') None (Str ''b'') []"

definition colliding_options :: "react_option list" where
  "colliding_options = [leaf_b_top, leaf_a, group_G]"


definition leaf_c_top :: react_option where
  "leaf_c_top = ReactOption Undefined (Str ''top'') None (Str ''c'') []"


definition leaf_c :: react_option where
  "leaf_c = ReactOption Undefined (Str ''C'') None (Str ''c'') []"

definition deep_options :: "react_option list" where
  "deep_options =
     [ReactOption Undefined (Str ''Outer'')
        (Some [ReactOption Undefined (Str ''Inner'') (Some [leaf_c]) Undefined []])
        Undefined []]"

definition deep_colliding_options :: "react_option list" where
  "deep_colliding_options = leaf_c_top # deep_options"

text \<open>An async select with \<open>cacheOptions\<close> set, and the widget \<open>render\<close> builds for it.\<close>

definition async_props :: ISelectProps where
  "async_props =
     \<lparr> props_name = Str ''country'',
       props_options = [],
       props_value = Obj 7,
       props_defaultValue = Undefined,
       props_onChange = True,
       props_async = True,
       props_disabled = False,
       props_searchable = False,
       props_multiple = False,
       props_loading = False,
       props_customOptionRenderer = False,
       props_customValueRenderer = False,
       props_loadOptions = Some (\<lambda>q. []),
       props_getOptionValue = None,
       props_defaultOptions = DefaultOptionsAbsent,
       props_cacheOptions = True,
       props_defaultMenuOpen = False \<rparr>"

definition async_widget :: SelectProvider_props where
  "async_widget =
     \<lparr> sp_isClearable = True,
       sp_isDisabled = False,
       sp_isMulti = False,
       sp_isSearchable = True,
       sp_isLoading = False,
       sp_menuIsOpen = False,
       sp_defaultValue = Undefined,
       sp_getOptionValue = None,
       sp_options = [],
       sp_loadOptions = Some (\<lambda>q. []),
       sp_defaultOptions = None,
       sp_name = Str ''country'',
       sp_value = PassedThrough (Obj 7) \<rparr>"

text \<open>
  A searchable, single-value, synchronous select over the scenario tree whose raw value
  is the array \<open>["a"]\<close>, and the widget \<open>render\<close> builds for it.
\<close>

definition sync_props :: ISelectProps where
  "sync_props =
     \<lparr> props_name = Str ''letter'',
       props_options = scenario_options,
       props_value = Arr [Str ''a''],
       props_defaultValue = Undefined,
       props_onChange = True,
       props_async = False,
       props_disabled = False,
       props_searchable = True,
       props_multiple = False,
       props_loading = False,
       props_customOptionRenderer = False,
       props_customValueRenderer = False,
       props_loadOptions = None,
       props_getOptionValue = None,
       props_defaultOptions = DefaultOptionsAbsent,
       props_cacheOptions = False,
       props_defaultMenuOpen = False \<rparr>"

definition sync_widget :: SelectProvider_props where
  "sync_widget =
     \<lparr> sp_isClearable = True,
       sp_isDisabled = False,
       sp_isMulti = False,
       sp_isSearchable = True,
       sp_isLoading = False,
       sp_menuIsOpen = False,
       sp_defaultValue = Undefined,
       sp_getOptionValue = None,
       sp_options = [leaf_a, group_G],
       sp_loadOptions = None,
       sp_defaultOptions = None,
       sp_name = Str ''letter'',
       sp_value = Resolved (RMany [ROne leaf_a]) \<rparr>"

section \<open>The resolver's two passes\<close>




lemma last_match_Nil: "last_match m [] = None"
  by (simp add: last_match_def)

lemma find_append:
  "find m (xs @ ys) = (case find m xs of Some x \<Rightarrow> Some x | None \<Rightarrow> find m ys)"
  by (induction xs) simp_all

lemma last_match_append:
  "last_match m (xs @ ys) =
     (case last_match m ys of Some y \<Rightarrow> Some y | None \<Rightarrow> last_match m xs)"
  unfolding last_match_def by (simp add: find_append split: option.splits)

lemma last_match_Cons:
  "last_match m (x # xs) =
     (case last_match m xs of Some y \<Rightarrow> Some y | None \<Rightarrow> if m x then Some x else None)"
  unfolding last_match_def by (simp add: find_append split: option.splits)

lemma last_match_Some_iff: "last_match m xs = Some x \<Longrightarrow> x \<in> set xs \<and> m x"
  unfolding last_match_def by (metis find_Some_iff nth_mem set_rev)

lemma last_match_None_iff: "last_match m xs = None \<longleftrightarrow> (\<forall>x\<in>set xs. \<not> m x)"
  by (auto simp: last_match_def find_None_iff)

text \<open>The inner loop keeps the last sub-option that matches, the outer loop likewise.\<close>

lemma forEach_subOption_last:
  "forEach_subOption m subs valueFound =
     (case last_match m subs of Some s \<Rightarrow> Some s | None \<Rightarrow> valueFound)"
  by (induction subs arbitrary: valueFound)
    (simp_all add: last_match_Nil last_match_Cons split: option.splits)

lemma forEach_option_last:
  "forEach_option m options valueFound =
     (case last_match m (nested_options options) of Some s \<Rightarrow> Some s | None \<Rightarrow> valueFound)"
proof (induction options arbitrary: valueFound)
  case Nil
  show ?case by (simp add: nested_options_def last_match_Nil)
next
  case (Cons option rest)
  have n: "nested_options (option # rest) = sub_options option @ nested_options rest"
    by (simp add: nested_options_def)
  show ?case
    by (cases "opt_options option")
      (simp_all add: Cons.IH n sub_options_def last_match_append last_match_Nil
        forEach_subOption_last split: option.splits)
qed

lemma resolve_scalar_eq:
  "resolve_scalar v options g =
     (case last_match (matchValue g v) (nested_options options) of
        Some s \<Rightarrow> ROne s
      | None \<Rightarrow>
          (case find (matchValue g v) options of
             Some option \<Rightarrow> ROne option
           | None \<Rightarrow> RUndefined))"
  by (simp add: resolve_scalar_def forEach_option_last split: option.splits)

lemma value_scalar:
  "is_scalar v \<Longrightarrow>
   cosmosToReactSelect_value v options g = Inr (resolve_scalar v options g)"
  by (cases v) simp_all

lemma resolve_scalar_no_match:
  assumes "\<forall>option \<in> set (nested_options options @ options). \<not> strict_eq (g option) v"
  shows "resolve_scalar v options g = RUndefined"
proof -
  from assms have "last_match (matchValue g v) (nested_options options) = None"
    by (simp add: last_match_None_iff matchValue_def)
  moreover from assms have "find (matchValue g v) options = None"
    by (simp add: find_None_iff matchValue_def)
  ultimately show ?thesis by (simp add: resolve_scalar_eq)
qed

text \<open>The array branch returns exactly when every element does.\<close>

lemma collect_results_map_Inr: "collect_results (map Inr rs) = Inr rs"
  by (induction rs) simp_all

lemma collect_results_Inr: "collect_results xs = Inr rs \<longleftrightarrow> xs = map Inr rs"
proof
  show "collect_results xs = Inr rs \<Longrightarrow> xs = map Inr rs"
    by (induction xs arbitrary: rs) (auto split: sum.splits)
next
  show "xs = map Inr rs \<Longrightarrow> collect_results xs = Inr rs"
    by (simp add: collect_results_map_Inr)
qed

lemma value_Arr_Inr:
  "cosmosToReactSelect_value (Arr vs) options g = Inr r \<longleftrightarrow>
     (\<exists>rs. r = RMany rs \<and> map (\<lambda>v. cosmosToReactSelect_value v options g) vs = map Inr rs)"
  by (auto simp: collect_results_Inr collect_results_map_Inr split: sum.splits)

lemma value_returns_iff:
  "(\<exists>r. cosmosToReactSelect_value v options g = Inr r) \<longleftrightarrow> has_constructor v"
proof (induction v)
  case (Arr vs)
  have "(\<exists>rs. map (\<lambda>v. cosmosToReactSelect_value v options g) vs = map Inr rs)
          \<longleftrightarrow> list_all has_constructor vs"
    using Arr
  proof (induction vs)
    case Nil
    show ?case by simp
  next
    case (Cons a as)
    then have IH: "(\<exists>rs. map (\<lambda>v. cosmosToReactSelect_value v options g) as = map Inr rs)
          \<longleftrightarrow> list_all has_constructor as"
      and a: "(\<exists>r. cosmosToReactSelect_value a options g = Inr r) \<longleftrightarrow> has_constructor a"
      by simp_all
    show ?case
    proof
      assume "\<exists>rs. map (\<lambda>v. cosmosToReactSelect_value v options g) (a # as) = map Inr rs"
      then obtain rs where
        rs: "map (\<lambda>v. cosmosToReactSelect_value v options g) (a # as) = map Inr rs" ..
      then obtain r rs' where "rs = r # rs'" by (cases rs) auto
      with rs a IH show "list_all has_constructor (a # as)" by auto
    next
      assume "list_all has_constructor (a # as)"
      with a IH obtain r rs where "cosmosToReactSelect_value a options g = Inr r"
        "map (\<lambda>v. cosmosToReactSelect_value v options g) as = map Inr rs" by auto
      then have "map (\<lambda>v. cosmosToReactSelect_value v options g) (a # as) = map Inr (r # rs)"
        by simp
      then show "\<exists>rs. map (\<lambda>v. cosmosToReactSelect_value v options g) (a # as) = map Inr rs" ..
    qed
  qed
  then show ?case by (simp only: value_Arr_Inr has_constructor.simps) blast
qed (simp_all add: resolve_scalar_def)

lemma value_Arr_positions:
  assumes "cosmosToReactSelect_value (Arr vs) options g = Inr r"
  shows "\<exists>rs. r = RMany rs \<and> length rs = length vs
           \<and> (\<forall>i < length vs. cosmosToReactSelect_value (vs ! i) options g = Inr (rs ! i))"
proof -
  from assms obtain rs where
    rs: "r = RMany rs"
        "map (\<lambda>v. cosmosToReactSelect_value v options g) vs = map Inr rs"
    unfolding value_Arr_Inr by blast
  from rs(2) have l: "length rs = length vs"
    by (metis length_map)
  have "cosmosToReactSelect_value (vs ! i) options g = Inr (rs ! i)"
    if "i < length vs" for i
  proof -
    from that have "map (\<lambda>v. cosmosToReactSelect_value v options g) vs ! i
         = cosmosToReactSelect_value (vs ! i) options g"
      by simp
    moreover from that l have "map Inr rs ! i = (Inr (rs ! i) :: error + resolved)"
      by simp
    ultimately show ?thesis using rs(2) by simp
  qed
  with rs(1) l show ?thesis by blast
qed

lemma multiplicity_of_value:
  "cosmosToReactSelect_value v options g = Inr r \<Longrightarrow> multiplicity_of r = raw_shape v"
  by (cases v) (auto simp: resolve_scalar_def split: option.splits sum.splits)

section \<open>The examples, evaluated\<close>

lemma scenario_normalized:
  "cosmosToReactSelect_options scenario_options = [leaf_a, group_G]"
  by (simp add: cosmosToReactSelect_options_def scenario_options_def leaf_a_def leaf_b_def
      group_G_def js_or_def)

lemma nested_scenario: "nested_options [leaf_a, group_G] = [leaf_b]"
  by (simp add: nested_options_def sub_options_def leaf_a_def group_G_def)

lemma nested_duplicate_groups: "nested_options duplicate_groups = [leaf_b1, leaf_b2]"
  by (simp add: nested_options_def sub_options_def duplicate_groups_def)

lemma nested_colliding: "nested_options colliding_options = [leaf_b]"
  by (simp add: nested_options_def sub_options_def colliding_options_def leaf_b_top_def
      leaf_a_def group_G_def)

lemma example_keys:
  "defaultGetOptionValue leaf_a = Str ''a''"
  "defaultGetOptionValue leaf_b = Str ''b''"
  "defaultGetOptionValue leaf_b1 = Str ''b''"
  "defaultGetOptionValue leaf_b2 = Str ''b''"
  "defaultGetOptionValue leaf_b_top = Str ''b''"
  "defaultGetOptionValue group_G = Undefined"
  by (simp_all add: defaultGetOptionValue_def leaf_a_def leaf_b_def leaf_b1_def leaf_b2_def
      leaf_b_top_def group_G_def)

lemma match_b:
  "matchValue defaultGetOptionValue (Str ''b'') leaf_b"
  "matchValue defaultGetOptionValue (Str ''b'') leaf_b1"
  "matchValue defaultGetOptionValue (Str ''b'') leaf_b2"
  "matchValue defaultGetOptionValue (Str ''b'') leaf_b_top"
  "\<not> matchValue defaultGetOptionValue (Str ''b'') leaf_a"
  "\<not> matchValue defaultGetOptionValue (Str ''b'') group_G"
  by (simp_all add: matchValue_def example_keys)

lemma resolve_in_scenario:
  "resolve_scalar (Str ''a'') [leaf_a, group_G] defaultGetOptionValue = ROne leaf_a"
  "resolve_scalar (Str ''b'') [leaf_a, group_G] defaultGetOptionValue = ROne leaf_b"
  "resolve_scalar (Str ''x'') [leaf_a, group_G] defaultGetOptionValue = RUndefined"
  by (simp_all add: resolve_scalar_def matchValue_def defaultGetOptionValue_def leaf_a_def
      leaf_b_def group_G_def)

lemma render_async_props: "render async_props = Inr (SelectProvider AsyncSelect async_widget)"
  by (simp add: render_def simple_path_def async_props_def async_widget_def
      cosmosToReactSelect_options_def)

lemma render_sync_props: "render sync_props = Inr (SelectProvider ReactSelect sync_widget)"
proof -
  have "cosmosToReactSelect_options (props_options sync_props) = [leaf_a, group_G]"
    by (simp add: sync_props_def scenario_normalized)
  then show ?thesis
    by (simp add: render_def Let_def simple_path_def or_default_def resolve_in_scenario)
       (simp add: sync_props_def sync_widget_def or_default_def resolve_in_scenario)
qed

lemma rendered_value_sync:
  "\<not> props_async props \<Longrightarrow> \<not> simple_path props \<Longrightarrow>
   props_defaultOptions props = DefaultOptionsAbsent \<Longrightarrow>
   cosmosToReactSelect_value (props_value props)
        (cosmosToReactSelect_options (props_options props))
        (or_default (props_getOptionValue props)) = Inr r \<Longrightarrow>
   rendered_value (render props) = Some (Resolved r)"
  by (simp add: render_def Let_def)

section \<open>Multiplicity of the resolved value\<close>

text \<open>
  The resolver never reads \<open>multiple\<close>.  In single mode the raw array \<open>["a"]\<close> is resolved
  element-wise to a sequence, and in multi mode the raw scalar \<open>"a"\<close> is resolved to one
  record.
\<close>

theorem multiplicity_matches_flag_counterexample:
  "\<not> props_multiple sync_props
   \<and> rendered_value (render sync_props) = Some (Resolved (RMany [ROne leaf_a]))
   \<and> props_multiple (sync_props\<lparr> props_multiple := True, props_value := Str ''a'' \<rparr>)
   \<and> rendered_value (render (sync_props\<lparr> props_multiple := True, props_value := Str ''a'' \<rparr>))
       = Some (Resolved (ROne leaf_a))"
proof -
  have o: "props_options sync_props = scenario_options"
    "props_getOptionValue sync_props = None" "props_value sync_props = Arr [Str ''a'']"
    "\<not> props_multiple sync_props"
    by (simp_all add: sync_props_def)
  have 1: "rendered_value (render sync_props) = Some (Resolved (RMany [ROne leaf_a]))"
    by (rule rendered_value_sync)
      (simp_all add: o scenario_normalized or_default_def resolve_in_scenario,
        simp_all add: sync_props_def simple_path_def)
  have 2: "rendered_value (render (sync_props\<lparr> props_multiple := True, props_value := Str ''a'' \<rparr>))
       = Some (Resolved (ROne leaf_a))"
    by (rule rendered_value_sync)
      (simp_all add: o scenario_normalized or_default_def resolve_in_scenario,
        simp_all add: sync_props_def simple_path_def)
  from 1 2 o(4) show ?thesis by simp
qed

text \<open>
  C1, as amended.  In a synchronous select that renders the full widget, the value handed
  to the widget is the resolver's result on the raw value, and its multiplicity follows
  the runtime shape of the raw value: \<open>null\<close> for a \<open>null\<close> or \<open>undefined\<close> raw value; for
  a raw array a sequence of the same length, whose positions hold the resolver's results
  for the elements in order; one slot (a record, or \<open>undefined\<close>) for anything else.
  Setting \<open>multiple\<close> to any other value leaves the resolved value as it is, as long as the
  full widget is still rendered.
\<close>

theorem resolved_multiplicity_follows_raw_shape:
  assumes "\<not> props_async props"
    and "render props = Inr (SelectProvider kind w)"
  shows "\<exists>r. cosmosToReactSelect_value (props_value props) (sp_options w)
                (or_default (props_getOptionValue props)) = Inr r
           \<and> sp_value w = Resolved r
           \<and> multiplicity_of r = raw_shape (props_value props)
           \<and> (\<forall>vs. props_value props = Arr vs \<longrightarrow>
                 (\<exists>rs. r = RMany rs \<and> length rs = length vs
                    \<and> (\<forall>i < length vs.
                          cosmosToReactSelect_value (vs ! i) (sp_options w)
                            (or_default (props_getOptionValue props)) = Inr (rs ! i))))
           \<and> (\<not> simple_path (props\<lparr> props_multiple := m \<rparr>) \<longrightarrow>
                 rendered_value (render (props\<lparr> props_multiple := m \<rparr>)) = Some (sp_value w))"
proof -
  let ?g = "or_default (props_getOptionValue props)"
  from assms obtain r where
    v: "cosmosToReactSelect_value (props_value props) (sp_options w) ?g = Inr r"
       "sp_value w = Resolved r"
    by (auto simp: render_def Let_def split: if_splits sum.splits)
  from assms
  have i: "rendered_value (render (props\<lparr> props_multiple := m \<rparr>)) = Some (sp_value w)"
    if "\<not> simple_path (props\<lparr> props_multiple := m \<rparr>)"
    using that by (auto simp: render_def Let_def split: if_splits sum.splits)
  have a: "\<exists>rs. r = RMany rs \<and> length rs = length vs
                \<and> (\<forall>i < length vs.
                      cosmosToReactSelect_value (vs ! i) (sp_options w) ?g = Inr (rs ! i))"
    if "props_value props = Arr vs" for vs
  proof -
    from v(1) have "cosmosToReactSelect_value (Arr vs) (sp_options w) ?g = Inr r"
      unfolding that .
    then show ?thesis by (rule value_Arr_positions)
  qed
  from v i a multiplicity_of_value [OF v(1)] show ?thesis by blast
qed

theorem resolved_multiplicity_follows_raw_shape_witness:
  "\<not> props_async sync_props
   \<and> render sync_props = Inr (SelectProvider ReactSelect sync_widget)
   \<and> \<not> props_multiple sync_props
   \<and> props_value sync_props = Arr [Str ''a'']
   \<and> sp_value sync_widget = Resolved (RMany [ROne leaf_a])
   \<and> rendered_value (render (sync_props\<lparr> props_multiple := True \<rparr>))
       = Some (Resolved (RMany [ROne leaf_a]))"
proof -
  have a: "\<not> props_async sync_props" by (simp add: sync_props_def)
  have s: "\<not> simple_path (sync_props\<lparr> props_multiple := True \<rparr>)"
    by (simp add: simple_path_def)
  from resolved_multiplicity_follows_raw_shape [OF a render_sync_props, of True]
    a s render_sync_props
  show ?thesis by (auto simp: sync_props_def sync_widget_def)
qed

section \<open>Search order among nested leaves\<close>

text \<open>
  C2.  Two groups hold a leaf with the key \<open>"b"\<close>.  The first one in search order is the
  leaf of the first group; the nested loops have no exit and keep the last match, so the
  resolver returns the leaf of the second group.
\<close>

theorem nested_scan_returns_later_duplicate:
  "find (matchValue defaultGetOptionValue (Str ''b'')) (nested_options duplicate_groups)
     = Some leaf_b1
   \<and> cosmosToReactSelect_value (Str ''b'') duplicate_groups defaultGetOptionValue
       = Inr (ROne leaf_b2)
   \<and> leaf_b2 \<noteq> leaf_b1"
  by (simp add: resolve_scalar_eq nested_duplicate_groups last_match_def match_b)
     (simp add: leaf_b1_def leaf_b2_def)

section \<open>Nested leaves before top-level ones\<close>

text \<open>
  The leaf with key \<open>"c"\<close> lies inside a group that is inside a group, and a top-level
  leaf has the same key.  Only the sub-options of top-level entries are scanned, so the
  top-level leaf is returned.
\<close>

theorem nested_leaf_beats_top_level_counterexample:
  "leaf_c \<in> set (concat (map descendants deep_colliding_options))
   \<and> defaultGetOptionValue leaf_c = Str ''c''
   \<and> leaf_c_top \<in> set deep_colliding_options
   \<and> defaultGetOptionValue leaf_c_top = Str ''c''
   \<and> cosmosToReactSelect_value (Str ''c'') deep_colliding_options defaultGetOptionValue
       = Inr (ROne leaf_c_top)
   \<and> leaf_c_top \<noteq> leaf_c"
  by (simp add: deep_colliding_options_def deep_options_def leaf_c_def leaf_c_top_def
      defaultGetOptionValue_def resolve_scalar_def matchValue_def)

text \<open>
  C4, as amended.  For a raw value \<open>v\<close> that reaches scalar resolution (not \<open>null\<close>, not
  \<open>undefined\<close>, not an array, not an object without a constructor): when the key of some
  option directly inside a top-level group is strictly equal to \<open>v\<close>, the result is an
  option directly inside a top-level group with such a key, whatever the top-level list
  holds; the result is the first top-level match (or \<open>undefined\<close>) only when no option
  directly inside a top-level group has such a key.
\<close>

theorem nested_leaf_beats_top_level:
  assumes "is_scalar v"
  shows "((\<exists>s \<in> set (nested_options options). strict_eq (g s) v) \<longrightarrow>
            (\<exists>s \<in> set (nested_options options).
                strict_eq (g s) v \<and> cosmosToReactSelect_value v options g = Inr (ROne s)))
         \<and> ((\<forall>s \<in> set (nested_options options). \<not> strict_eq (g s) v) \<longrightarrow>
              cosmosToReactSelect_value v options g =
                Inr (case find (\<lambda>option. strict_eq (g option) v) options of
                       Some option \<Rightarrow> ROne option
                     | None \<Rightarrow> RUndefined))"
proof -
  have mv: "matchValue g v = (\<lambda>option. strict_eq (g option) v)"
    by (simp add: matchValue_def fun_eq_iff)
  show ?thesis
  proof (cases "last_match (matchValue g v) (nested_options options)")
    case None
    then have "\<forall>s \<in> set (nested_options options). \<not> strict_eq (g s) v"
      by (simp add: last_match_None_iff mv)
    with None show ?thesis
      using assms by (auto simp: value_scalar resolve_scalar_eq mv)
  next
    case (Some s)
    then have "s \<in> set (nested_options options) \<and> strict_eq (g s) v"
      using last_match_Some_iff [OF Some] by (simp add: mv)
    with Some show ?thesis
      using assms by (auto simp: value_scalar resolve_scalar_eq)
  qed
qed

theorem nested_leaf_beats_top_level_witness:
  "is_scalar (Str ''b'')
   \<and> leaf_b_top \<in> set colliding_options
   \<and> strict_eq (defaultGetOptionValue leaf_b_top) (Str ''b'')
   \<and> leaf_b \<in> set (nested_options colliding_options)
   \<and> strict_eq (defaultGetOptionValue leaf_b) (Str ''b'')
   \<and> cosmosToReactSelect_value (Str ''b'') colliding_options defaultGetOptionValue
       = Inr (ROne leaf_b)
   \<and> cosmosToReactSelect_value (Str ''a'') colliding_options defaultGetOptionValue
       = Inr (ROne leaf_a)"
proof -
  have s: "is_scalar (Str ''b'')" "is_scalar (Str ''a'')" by simp_all
  have na: "\<forall>s \<in> set (nested_options colliding_options).
              \<not> strict_eq (defaultGetOptionValue s) (Str ''a'')"
    by (simp add: nested_colliding example_keys)
  have fa: "find (\<lambda>option. strict_eq (defaultGetOptionValue option) (Str ''a''))
              colliding_options = Some leaf_a"
    by (simp add: colliding_options_def example_keys)
  have "cosmosToReactSelect_value (Str ''b'') colliding_options defaultGetOptionValue
          = Inr (ROne leaf_b)"
    using nested_leaf_beats_top_level [OF s(1), of colliding_options defaultGetOptionValue]
    by (simp add: nested_colliding example_keys)
  moreover
  have "cosmosToReactSelect_value (Str ''a'') colliding_options defaultGetOptionValue
          = Inr (ROne leaf_a)"
    using nested_leaf_beats_top_level [OF s(2), of colliding_options defaultGetOptionValue] na fa
    by simp
  ultimately show ?thesis
    using s by (simp add: nested_colliding example_keys) (simp add: colliding_options_def)
qed

section \<open>Round trip of key extraction and resolution\<close>




section \<open>Normalisation and the structure of the tree\<close>

lemma shape_normalize_option:
  "no_options_field c \<Longrightarrow> shape_of_react (normalize_option c) = shape_of_cosmos c"
proof (induction c)
  case (CosmosOption its g d l t v xo xd oth)
  show ?case
  proof (cases its)
    case None
    with CosmosOption.prems show ?thesis by simp
  next
    case (Some xs)
    with CosmosOption.prems have "\<forall>x \<in> set xs. no_options_field x"
      by (simp add: list_all_iff)
    then have "map (shape_of_react \<circ> normalize_option) xs = map shape_of_cosmos xs"
      using CosmosOption.IH Some by (intro map_cong) auto
    with Some CosmosOption.prems show ?thesis by simp
  qed
qed

text \<open>
  A caller field named \<open>options\<close> replaces the sub-options computed from \<open>items\<close>: the
  group whose own \<open>options\<close> is the empty array loses its leaf, and the leaf that carries
  \<open>options\<close> becomes a group one level deeper.
\<close>

theorem normalize_preserves_structure_counterexample:
  "sum_list (map (leaf_count \<circ> shape_of_cosmos) [overridden_group]) = 1
   \<and> sum_list (map (leaf_count \<circ> shape_of_react)
        (cosmosToReactSelect_options [overridden_group])) = 0
   \<and> foldr max (map (depth \<circ> shape_of_cosmos) [overridden_leaf]) 0 = 1
   \<and> foldr max (map (depth \<circ> shape_of_react)
        (cosmosToReactSelect_options [overridden_leaf])) 0 = 2"
  by (simp add: cosmosToReactSelect_options_def overridden_group_def overridden_leaf_def)

text \<open>
  C7, as amended.  For every caller option tree in which no option has a field of its own
  named \<open>options\<close>, the canonical tree has the structure of the caller's tree: node for
  node, in the same order and with the same \<open>value\<close> fields, a group where the caller has
  a group and a leaf where the caller has a leaf.  So the list has the same length, and
  the leaf count, the nesting depth and the left-to-right sequence of leaf values are the
  same.
\<close>

theorem normalize_preserves_structure:
  assumes "list_all no_options_field cs"
  shows "map shape_of_react (cosmosToReactSelect_options cs) = map shape_of_cosmos cs
   \<and> length (cosmosToReactSelect_options cs) = length cs
   \<and> sum_list (map (leaf_count \<circ> shape_of_react) (cosmosToReactSelect_options cs))
       = sum_list (map (leaf_count \<circ> shape_of_cosmos) cs)
   \<and> foldr max (map (depth \<circ> shape_of_react) (cosmosToReactSelect_options cs)) 0
       = foldr max (map (depth \<circ> shape_of_cosmos) cs) 0
   \<and> concat (map (leaf_values \<circ> shape_of_react) (cosmosToReactSelect_options cs))
       = concat (map (leaf_values \<circ> shape_of_cosmos) cs)
   \<and> map opt_value (cosmosToReactSelect_options cs) = map item_value cs"
proof -
  have v: "map opt_value (cosmosToReactSelect_options cs) = map item_value cs"
  proof -
    have "opt_value (normalize_option c) = item_value c" for c
      by (cases c) simp
    then show ?thesis by (simp add: cosmosToReactSelect_options_def)
  qed
  have k: "map shape_of_react (cosmosToReactSelect_options cs) = map shape_of_cosmos cs"
    unfolding cosmosToReactSelect_options_def map_map
    using assms by (intro map_cong) (simp_all add: list_all_iff shape_normalize_option)
  have f: "map (f \<circ> shape_of_react) (cosmosToReactSelect_options cs)
             = map (f \<circ> shape_of_cosmos) cs" for f :: "tree_shape \<Rightarrow> 'b"
    using arg_cong [OF k, of "map f"] by (simp only: map_map)
  have l: "length (cosmosToReactSelect_options cs) = length cs"
    by (simp add: cosmosToReactSelect_options_def)
  from v k l show ?thesis by (simp only: f)
qed

theorem normalize_preserves_structure_witness:
  "list_all no_options_field scenario_options
   \<and> map shape_of_react [leaf_a, group_G] = map shape_of_cosmos scenario_options
   \<and> sum_list (map (leaf_count \<circ> shape_of_cosmos) scenario_options) = 2
   \<and> foldr max (map (depth \<circ> shape_of_cosmos) scenario_options) 0 = 2
   \<and> concat (map (leaf_values \<circ> shape_of_cosmos) scenario_options) = [Str ''a'', Str ''b'']"
proof -
  have n: "list_all no_options_field scenario_options"
    by (simp add: scenario_options_def)
  from normalize_preserves_structure [OF n] n show ?thesis
    by (simp add: scenario_normalized) (simp add: scenario_options_def)
qed

section \<open>Resolution of a raw array\<close>

text \<open>
  Neither \<open>null\<close> nor \<open>undefined\<close> is the key of an option, yet their positions hold
  \<open>null\<close>, not \<open>undefined\<close>; and an element that is an array gives a nested sequence.
\<close>

theorem multi_resolution_counterexample:
  "list_all (\<lambda>option. \<not> strict_eq (defaultGetOptionValue option) Null)
     (nested_options [leaf_a, group_G] @ [leaf_a, group_G])
   \<and> cosmosToReactSelect_value (Arr [Null, Str ''x'', Undefined]) [leaf_a, group_G]
        defaultGetOptionValue = Inr (RMany [RNull, RUndefined, RNull])
   \<and> cosmosToReactSelect_value (Arr [Arr [Str ''a'']]) [leaf_a, group_G]
        defaultGetOptionValue = Inr (RMany [RMany [ROne leaf_a]])"
  by (simp add: nested_scenario example_keys resolve_in_scenario)

text \<open>
  C8, as amended.  A raw array that holds no object without a constructor resolves to an
  array of the same length and order, each position holding the resolver's own result
  for the element at that position; for \<open>[v1, v2, v3]\<close> that is three positions.  The
  result for an element is the scalar resolution when the element is a scalar, and then
  \<open>undefined\<close> (kept, not dropped) when no option has a key strictly equal to it; it is
  \<open>null\<close> when the element is \<open>null\<close> or \<open>undefined\<close>, and a sequence of the element's
  length when the element is an array.  The empty array resolves to the empty array.  A
  raw array that holds an object without a constructor, at any depth, makes the resolver
  throw.
\<close>

theorem multi_resolution_elementwise:
  "(list_all has_constructor vs \<longrightarrow>
      (\<exists>rs. cosmosToReactSelect_value (Arr vs) options g = Inr (RMany rs)
         \<and> length rs = length vs
         \<and> (\<forall>i < length vs. cosmosToReactSelect_value (vs ! i) options g = Inr (rs ! i))))
   \<and> (list_all has_constructor [v1, v2, v3] \<longrightarrow>
        (\<exists>r1 r2 r3. cosmosToReactSelect_value (Arr [v1, v2, v3]) options g
                       = Inr (RMany [r1, r2, r3])
           \<and> cosmosToReactSelect_value v1 options g = Inr r1
           \<and> cosmosToReactSelect_value v2 options g = Inr r2
           \<and> cosmosToReactSelect_value v3 options g = Inr r3))
   \<and> (\<not> list_all has_constructor vs \<longrightarrow>
        cosmosToReactSelect_value (Arr vs) options g = Inl TypeError)
   \<and> (is_scalar v \<longrightarrow>
        cosmosToReactSelect_value v options g = Inr (resolve_scalar v options g))
   \<and> (is_scalar v \<longrightarrow>
        list_all (\<lambda>option. \<not> strict_eq (g option) v) (nested_options options @ options) \<longrightarrow>
        cosmosToReactSelect_value v options g = Inr RUndefined)
   \<and> cosmosToReactSelect_value Null options g = Inr RNull
   \<and> cosmosToReactSelect_value Undefined options g = Inr RNull
   \<and> (cosmosToReactSelect_value (Arr ws) options g = Inr r \<longrightarrow>
        (\<exists>rs. r = RMany rs \<and> length rs = length ws))
   \<and> cosmosToReactSelect_value (Arr []) options g = Inr (RMany [])"
proof -
  have a: "\<exists>rs. cosmosToReactSelect_value (Arr vs) options g = Inr (RMany rs)
         \<and> length rs = length vs
         \<and> (\<forall>i < length vs. cosmosToReactSelect_value (vs ! i) options g = Inr (rs ! i))"
    if "list_all has_constructor vs"
  proof -
    from that have "has_constructor (Arr vs)" by simp
    then obtain r where r: "cosmosToReactSelect_value (Arr vs) options g = Inr r"
      using value_returns_iff [of "Arr vs" options g] by blast
    from value_Arr_positions [OF r] r show ?thesis by blast
  qed
  have b: "\<exists>r1 r2 r3. cosmosToReactSelect_value (Arr [v1, v2, v3]) options g
                       = Inr (RMany [r1, r2, r3])
           \<and> cosmosToReactSelect_value v1 options g = Inr r1
           \<and> cosmosToReactSelect_value v2 options g = Inr r2
           \<and> cosmosToReactSelect_value v3 options g = Inr r3"
    if "list_all has_constructor [v1, v2, v3]"
  proof -
    from that obtain r1 r2 r3 where
      "cosmosToReactSelect_value v1 options g = Inr r1"
      "cosmosToReactSelect_value v2 options g = Inr r2"
      "cosmosToReactSelect_value v3 options g = Inr r3"
      using value_returns_iff [of v1 options g] value_returns_iff [of v2 options g]
        value_returns_iff [of v3 options g] by auto
    then show ?thesis by simp
  qed
  have c: "cosmosToReactSelect_value (Arr vs) options g = Inl TypeError"
    if "\<not> list_all has_constructor vs"
  proof (cases "cosmosToReactSelect_value (Arr vs) options g")
    case (Inl e)
    then show ?thesis by (cases e) simp
  next
    case (Inr r)
    with that value_returns_iff [of "Arr vs" options g] show ?thesis by simp
  qed
  have d: "cosmosToReactSelect_value v options g = Inr RUndefined"
    if "is_scalar v"
      "list_all (\<lambda>option. \<not> strict_eq (g option) v) (nested_options options @ options)"
    using that resolve_scalar_no_match [of options g v]
    by (simp add: value_scalar list_all_iff)
  have e: "\<exists>rs. r = RMany rs \<and> length rs = length ws"
    if "cosmosToReactSelect_value (Arr ws) options g = Inr r"
    using value_Arr_positions [OF that] by blast
  from a b c d e show ?thesis
    by (simp add: value_scalar)
qed

theorem multi_resolution_elementwise_witness:
  "list_all has_constructor [Str ''b'', Str ''x'', Str ''a'']
   \<and> is_scalar (Str ''x'')
   \<and> list_all (\<lambda>option. \<not> strict_eq (defaultGetOptionValue option) (Str ''x''))
        (nested_options [leaf_a, group_G] @ [leaf_a, group_G])
   \<and> cosmosToReactSelect_value (Arr [Str ''b'', Str ''x'', Str ''a'']) [leaf_a, group_G]
        defaultGetOptionValue = Inr (RMany [ROne leaf_b, RUndefined, ROne leaf_a])
   \<and> \<not> list_all has_constructor [Str ''b'', ObjNoConstructor 1]
   \<and> cosmosToReactSelect_value (Arr [Str ''b'', ObjNoConstructor 1]) [leaf_a, group_G]
        defaultGetOptionValue = Inl TypeError"
proof -
  have x: "list_all (\<lambda>option. \<not> strict_eq (defaultGetOptionValue option) (Str ''x''))
        (nested_options [leaf_a, group_G] @ [leaf_a, group_G])"
    by (simp add: nested_scenario example_keys)
  have r: "cosmosToReactSelect_value (Str ''b'') [leaf_a, group_G] defaultGetOptionValue
             = Inr (ROne leaf_b)"
    "cosmosToReactSelect_value (Str ''a'') [leaf_a, group_G] defaultGetOptionValue
             = Inr (ROne leaf_a)"
    by (simp_all add: resolve_in_scenario)
  from multi_resolution_elementwise [of "[Str ''b'', ObjNoConstructor 1]" "[leaf_a, group_G]"
      defaultGetOptionValue "Str ''b''" "Str ''x''" "Str ''a''" "Str ''x''"] x r
  show ?thesis by simp
qed

section \<open>The change event\<close>

text \<open>
  In async mode the handler hands the widget's record on as it is: the event carries the
  record, not its key.
\<close>

theorem onChange_emits_keys_counterexample:
  "props_async async_props \<and> props_onChange async_props
   \<and> onChange async_props (SelOne leaf_a)
       = Some \<lparr> target_name = Str ''country'', target_value = Records (SelOne leaf_a) \<rparr>
   \<and> Records (SelOne leaf_a) \<noteq> Keys (oneOrMore (SelOne leaf_a) defaultGetOptionValue)"
  by (simp add: onChange_def async_props_def)

text \<open>
  C5, as amended.  When the caller supplied \<open>onChange\<close>, every selection event makes the
  handler call it with \<open>{ target: { name, value } }\<close>, \<open>name\<close> being the configured field
  name.  In a synchronous select \<open>value\<close> is built with the key extractor: \<open>null\<close> stays
  \<open>null\<close>, one record gives its key, a sequence of records gives the sequence of their
  keys in order.  In async mode \<open>value\<close> is the widget's selection itself, unchanged.
\<close>

theorem onChange_event_shape:
  assumes "props_onChange props"
  shows "onChange props sel =
           Some \<lparr> target_name = props_name props,
                  target_value =
                    (if props_async props then Records sel
                     else Keys (case sel of
                                  SelNull \<Rightarrow> Null
                                | SelOne option \<Rightarrow> or_default (props_getOptionValue props) option
                                | SelMany options \<Rightarrow>
                                    Arr (map (or_default (props_getOptionValue props)) options))) \<rparr>"
  using assms by (cases sel) (simp_all add: onChange_def)

theorem onChange_event_shape_witness:
  "props_onChange sync_props \<and> \<not> props_async sync_props
   \<and> onChange sync_props SelNull
       = Some \<lparr> target_name = Str ''letter'', target_value = Keys Null \<rparr>
   \<and> onChange sync_props (SelOne leaf_b)
       = Some \<lparr> target_name = Str ''letter'', target_value = Keys (Str ''b'') \<rparr>
   \<and> onChange sync_props (SelMany [leaf_b, leaf_a])
       = Some \<lparr> target_name = Str ''letter'', target_value = Keys (Arr [Str ''b'', Str ''a'']) \<rparr>"
proof -
  have p: "props_onChange sync_props" by (simp add: sync_props_def)
  from onChange_event_shape [OF p, of SelNull] onChange_event_shape [OF p, of "SelOne leaf_b"]
    onChange_event_shape [OF p, of "SelMany [leaf_b, leaf_a]"] p
  show ?thesis
    by (simp add: sync_props_def or_default_def example_keys)
qed

section \<open>Scroll events and the menu state\<close>

lemma run_Cons:
  "run state (e # es) =
     (fst (run (fst (dispatch state e)) es),
      snd (dispatch state e) + snd (run (fst (dispatch state e)) es))"
  by (simp split: prod.splits)

lemma run_counts_open_scrolls:
  "snd (run state es) = open_scrolls (menuIsOpen state) es"
proof (induction es arbitrary: state)
  case Nil
  show ?case by simp
next
  case (Cons e es)
  show ?case
    by (cases e)
      (simp_all only: run_Cons Cons.IH, simp_all add: updateMenuState_def handleScroll_def)
qed

text \<open>
  C9.  \<open>handleScroll\<close> calls \<open>forceUpdate\<close> once when the menu state is open and not at all
  when it is closed, and leaves the state alone; no other event repositions.  Over any
  sequence of events the number of repositions is the number of scroll events that arrive
  while the menu is open, and over open, scroll, scroll, close, scroll it is two.
\<close>

theorem scroll_repositions_iff_open:
  "handleScroll state = (state, if menuIsOpen state then 1 else 0)
   \<and> snd (dispatch state e) = (if e = Scroll \<and> menuIsOpen state then 1 else 0)
   \<and> snd (run state es) = open_scrolls (menuIsOpen state) es
   \<and> snd (run state [MenuOpen, Scroll, Scroll, MenuClose, Scroll]) = 2"
proof -
  have a: "handleScroll state = (state, if menuIsOpen state then 1 else 0)"
    by (simp add: handleScroll_def)
  have b: "snd (dispatch state e) = (if e = Scroll \<and> menuIsOpen state then 1 else 0)"
    by (cases e) (simp_all add: handleScroll_def)
  have c: "snd (run state [MenuOpen, Scroll, Scroll, MenuClose, Scroll]) = 2"
    by (simp only: run_counts_open_scrolls) simp
  from a b c run_counts_open_scrolls show ?thesis by blast
qed

theorem scroll_repositions_iff_open_witness:
  "snd (run (initial_state sync_props) [Scroll, MenuOpen, Scroll, Scroll, MenuClose, Scroll]) = 2
   \<and> snd (dispatch \<lparr> menuIsOpen = False \<rparr> Scroll) = 0
   \<and> snd (dispatch \<lparr> menuIsOpen = True \<rparr> Scroll) = 1"
proof -
  have i: "initial_state sync_props = \<lparr> menuIsOpen = False \<rparr>"
    by (simp add: initial_state_def sync_props_def)
  from scroll_repositions_iff_open [of "\<lparr> menuIsOpen = False \<rparr>" Scroll
      "[Scroll, MenuOpen, Scroll, Scroll, MenuClose, Scroll]"]
    scroll_repositions_iff_open [of "\<lparr> menuIsOpen = True \<rparr>" Scroll "[]"] i
  show ?thesis by simp
qed

section \<open>What the widget is given\<close>

text \<open>
  C10.  Whenever the full widget is rendered, its \<open>isSearchable\<close> attribute is the
  disjunction of the \<open>async\<close> and \<open>searchable\<close> flags; so an async select is searchable
  whatever the caller's \<open>searchable\<close> flag says.
\<close>

theorem async_forces_searchable:
  assumes "render props = Inr (SelectProvider kind w)"
  shows "sp_isSearchable w = (props_async props \<or> props_searchable props)
         \<and> (props_async props \<longrightarrow> sp_isSearchable w)"
  using assms
  by (auto simp: render_def Let_def split: if_splits sum.splits)

theorem async_forces_searchable_witness:
  "render async_props = Inr (SelectProvider AsyncSelect async_widget)
   \<and> props_async async_props \<and> \<not> props_searchable async_props
   \<and> sp_isSearchable async_widget"
  using async_forces_searchable [OF render_async_props] render_async_props
  by (simp add: async_props_def)

text \<open>
  C3.  The documentation of \<open>cacheOptions\<close> promises that loaded data is cached while the
  flag is set.  \<open>render\<close> does not hand the flag to the widget: for an async select the
  rendered element is the same whatever value \<open>cacheOptions\<close> has, so the flag cannot
  change how the widget loads.
\<close>

theorem render_ignores_cacheOptions:
  assumes "props_async props"
  shows "render (props\<lparr> props_cacheOptions := c \<rparr>) = render props"
  using assms by (simp add: render_def simple_path_def Let_def split: sum.splits)

theorem render_ignores_cacheOptions_witness:
  "props_async async_props \<and> props_cacheOptions async_props
   \<and> render async_props = Inr (SelectProvider AsyncSelect async_widget)
   \<and> render (async_props\<lparr> props_cacheOptions := False \<rparr>)
       = Inr (SelectProvider AsyncSelect async_widget)"
proof -
  have a: "props_async async_props" "props_cacheOptions async_props"
    by (simp_all add: async_props_def)
  from render_ignores_cacheOptions [OF a(1), of False] a render_async_props
  show ?thesis by simp
qed

end
